theory Spec2Isabelle
  imports Main
begin

section \<open>The account service of project-auth\<close>

text \<open>
  The server (\<^verbatim>\<open>src/unnamed/part_000\<close>) is five request handlers over one
  collection of user documents. Each handler is embedded as a function from the request
  and the state of the world to what the handler does with the response object and the
  state afterwards.

  Three libraries stand behind the handlers and are not part of the repository:
  \<^item> bcrypt: its two pure functions are parameters (\<open>hashSync\<close>, \<open>compareSync\<close> of
    \<open>env\<close>); the argument checks that make it throw are written out;
  \<^item> mongoose over MongoDB: the collection is a list of documents in insertion order,
    \<open>findOne\<close> returns the first match, \<open>save\<close> validates the schema's \<open>required\<close>
    paths and inserts under the unique indexes. A filter value of
    \<open>undefined\<close> reaches the store as \<open>null\<close> (the connection at line 9 does not ask
    for undefined values to be ignored);
  \<^item> the random sources (\<open>bcrypt.genSaltSync\<close>, \<open>crypto.randomBytes\<close>, the fresh
    \<open>_id\<close>): what one call of the register handler draws is the argument \<open>draws\<close>.
  A store call that raises is scripted by the world: \<open>faults\<close> lists, for the store
  calls to come, whether each one raises.

  The application installs no body parser (lines 13-21 install \<open>cors\<close> only). A request
  body is therefore optional: \<open>None\<close> is an undefined \<open>req.body\<close>, on which the three
  \<open>POST\<close> handlers throw before any \<open>try\<close>; \<open>Some b\<close> is a parsed body. Of a parsed body
  the handlers read the fields \<open>name\<close> and \<open>password\<close>, each absent, null or a string;
  other JSON values are outside the model.
\<close>

subsection \<open>Values, documents, responses\<close>

text \<open>A field of a parsed JSON body as the handlers read it: absent, null, or a string.\<close>

datatype jsval = Undefined | Null | Str string

text \<open>The exceptions a handler can meet.\<close>

datatype error =
    TypeError                     \<comment> \<open>reading a property of an undefined \<open>req.body\<close>\<close>
  | BcryptError                   \<comment> \<open>bcrypt: data argument missing or not a string\<close>
  | ValidationError "string list" \<comment> \<open>mongoose: the required paths that are missing\<close>
  | DuplicateKey                  \<comment> \<open>MongoDB: a unique index rejects the insert\<close>
  | StoreError                    \<comment> \<open>the store call itself raises\<close>

text \<open>A document of the \<open>User\<close> model (\<open>UserSchema\<close>, lines 37-51) with its \<open>_id\<close>.\<close>

record user =
  name :: string
  password :: string
  accessToken :: string
  oid :: string

record body =
  body_name :: jsval
  body_password :: jsval

datatype json = JStr string | JBool bool | JExn error | JObj "(string \<times> json) list"

record response =
  status :: nat
  headers :: "(string \<times> string) list"
  payload :: json

text \<open>
  What the handler did: it sent a reply, it called \<open>next()\<close>, or its promise rejected
  with the error before it sent anything (what becomes of the request then is up to the
  framework).
\<close>

datatype outcome = Reply response | CallNext | Unhandled error

record env =
  hashSync :: "string \<Rightarrow> string \<Rightarrow> string"
  compareSync :: "string \<Rightarrow> string \<Rightarrow> bool"

record draws =
  genSaltSync :: string
  randomBytes_hex :: string
  new_oid :: string

record world =
  users :: "user list"
  faults :: "bool list"

subsection \<open>bcrypt\<close>

text \<open>
  \<open>bcrypt.hashSync(data, salt)\<close> and \<open>bcrypt.compareSync(data, hash)\<close> throw when
  \<open>data\<close> is null or undefined; the salt and the stored hash are always strings here.
\<close>

definition bcrypt_hashSync :: "env \<Rightarrow> jsval \<Rightarrow> string \<Rightarrow> error + string" where
  "bcrypt_hashSync e d salt =
     (case d of Str p \<Rightarrow> Inr (hashSync e p salt) | _ \<Rightarrow> Inl BcryptError)"

definition bcrypt_compareSync :: "env \<Rightarrow> jsval \<Rightarrow> string \<Rightarrow> error + bool" where
  "bcrypt_compareSync e d h =
     (case d of Str p \<Rightarrow> Inr (compareSync e p h) | _ \<Rightarrow> Inl BcryptError)"

subsection \<open>The store\<close>

text \<open>
  One call to the store reads the head of the script (an empty script: no fault) and
  advances it.
\<close>

definition store_raises :: "world \<Rightarrow> bool" where
  "store_raises w = (case faults w of [] \<Rightarrow> False | f # fs \<Rightarrow> f)"

definition advance :: "world \<Rightarrow> world" where
  "advance w = w\<lparr>faults := tl (faults w)\<rparr>"

datatype path = Name | AccessToken

fun get_path :: "path \<Rightarrow> user \<Rightarrow> string" where
  "get_path Name u = name u"
| "get_path AccessToken u = accessToken u"

text \<open>
  Whether a document meets the filter \<open>{path: v}\<close>. A value of \<open>undefined\<close> is sent to
  the store as \<open>null\<close>, and every stored document holds a string at both paths, so
  neither \<open>null\<close> nor \<open>undefined\<close> selects a document.
\<close>

fun matches :: "env \<Rightarrow> path \<Rightarrow> jsval \<Rightarrow> user \<Rightarrow> bool" where
  "matches e p (Str s) u = (get_path p u = s)"
| "matches e p Null u = False"
| "matches e p Undefined u = False"

text \<open>\<open>User.findOne({path: v})\<close>: the first matching document, or null.\<close>

definition findOne :: "env \<Rightarrow> path \<Rightarrow> jsval \<Rightarrow> world \<Rightarrow> (error + user option) \<times> world" where
  "findOne e p v w =
     (if store_raises w then (Inl StoreError, advance w)
      else (Inr (find (matches e p v) (users w)), advance w))"

text \<open>
  The \<open>required\<close> validator of a String path rejects undefined, null and the empty
  string.
\<close>

fun required_ok :: "jsval \<Rightarrow> bool" where
  "required_ok (Str s) = (s \<noteq> [])"
| "required_ok _ = False"

fun str_of :: "jsval \<Rightarrow> string" where
  "str_of (Str s) = s"
| "str_of _ = []"

definition validate :: "jsval \<Rightarrow> jsval \<Rightarrow> string list" where
  "validate n p =
     (if required_ok n then [] else [''name'']) @
     (if required_ok p then [] else [''password''])"

text \<open>
  \<open>new User({name, password}).save()\<close>, lines 60-63. The constructor fills
  \<open>accessToken\<close> from its default and \<open>_id\<close>; \<open>save\<close> validates before it touches the
  store, and the insert is refused when the name (\<open>unique: true\<close>) or the \<open>_id\<close> is
  already there.
\<close>

definition save :: "jsval \<Rightarrow> jsval \<Rightarrow> string \<Rightarrow> string \<Rightarrow> world \<Rightarrow> (error + user) \<times> world" where
  "save n p tok i w =
     (if validate n p \<noteq> [] then (Inl (ValidationError (validate n p)), w)
      else if store_raises w then (Inl StoreError, advance w)
      else let u = \<lparr>name = str_of n, password = str_of p, accessToken = tok, oid = i\<rparr>
           in if list_ex (\<lambda>x. name x = name u \<or> oid x = oid u) (users w)
              then (Inl DuplicateKey, advance w)
              else (Inr u, (advance w)\<lparr>users := users w @ [u]\<rparr>))"

subsection \<open>Response bodies\<close>

definition user_info :: "user \<Rightarrow> json" where
  "user_info u =
     JObj [(''success'', JBool True),
           (''response'', JObj [(''name'', JStr (name u)), (''id'', JStr (oid u)),
                                (''accessToken'', JStr (accessToken u))])]"

text \<open>\<open>e.errors\<close> exists on a mongoose validation error only; an undefined value is
  left out of the JSON.\<close>

definition could_not_create :: "error \<Rightarrow> json" where
  "could_not_create ex =
     JObj ([(''success'', JBool False), (''response'', JExn ex),
            (''message'', JStr ''Could not create user'')] @
           (case ex of
              ValidationError ps \<Rightarrow> [(''errors'', JObj (map (\<lambda>p. (p, JStr ''required'')) ps))]
            | _ \<Rightarrow> []))"

definition credentials_do_not_match :: json where
  "credentials_do_not_match =
     JObj [(''success'', JBool False), (''response'', JStr ''Credentials do not match'')]"

definition server_error :: "error \<Rightarrow> json" where
  "server_error ex = JObj [(''success'', JBool False), (''response'', JExn ex)]"

definition please_log_in :: json where
  "please_log_in =
     JObj [(''success'', JBool False), (''response'', JStr ''Please log in''),
           (''loggedOut'', JBool True)]"

definition secretMessage :: string where
  "secretMessage = ''This is the secret page! Woop woop''"

definition session_info :: "user \<Rightarrow> json" where
  "session_info u = JObj [(''userId'', JStr (oid u)), (''accessToken'', JStr (accessToken u))]"

definition not_found :: json where
  "not_found = JObj [(''notFound'', JBool True)]"

definition reply :: "nat \<Rightarrow> json \<Rightarrow> outcome" where
  "reply st j = Reply \<lparr>status = st, headers = [], payload = j\<rparr>"

subsection \<open>The handlers\<close>

text \<open>\<open>POST /register\<close>, lines 55-80.\<close>

definition register :: "env \<Rightarrow> draws \<Rightarrow> body option \<Rightarrow> world \<Rightarrow> outcome \<times> world" where
  "register e d b w =
     (case b of
        None \<Rightarrow> (Unhandled TypeError, w)
      | Some b \<Rightarrow>
          (case bcrypt_hashSync e (body_password b) (genSaltSync d) of
             Inl ex \<Rightarrow> (reply 400 (could_not_create ex), w)
           | Inr h \<Rightarrow>
               (case save (body_name b) (Str h) (randomBytes_hex d) (new_oid d) w of
                  (Inl ex, w') \<Rightarrow> (reply 400 (could_not_create ex), w')
                | (Inr newUser, w') \<Rightarrow> (reply 201 (user_info newUser), w'))))"

text \<open>\<open>POST /login\<close>, lines 82-109.\<close>

definition login :: "env \<Rightarrow> body option \<Rightarrow> world \<Rightarrow> outcome \<times> world" where
  "login e b w =
     (case b of
        None \<Rightarrow> (Unhandled TypeError, w)
      | Some b \<Rightarrow>
          (case findOne e Name (body_name b) w of
             (Inl ex, w') \<Rightarrow> (reply 500 (server_error ex), w')
           | (Inr None, w') \<Rightarrow> (reply 400 credentials_do_not_match, w')
           | (Inr (Some u), w') \<Rightarrow>
               (case bcrypt_compareSync e (body_password b) (password u) of
                  Inl ex \<Rightarrow> (reply 500 (server_error ex), w')
                | Inr True \<Rightarrow>
                    (Reply \<lparr>status = 200,
                            headers = [(''Access-Control-Allow-Origin'',
                                        ''https://emilia-michelle-project-auth.netlify.app'')],
                            payload = user_info u\<rparr>, w')
                | Inr False \<Rightarrow> (reply 400 credentials_do_not_match, w'))))"

text \<open>The middleware \<open>authenticateUser\<close>, lines 111-130 (defined, never installed).\<close>

definition authenticateUser :: "env \<Rightarrow> string option \<Rightarrow> world \<Rightarrow> outcome \<times> world" where
  "authenticateUser e hdr w =
     (case findOne e AccessToken (case hdr of None \<Rightarrow> Undefined | Some t \<Rightarrow> Str t) w of
        (Inl ex, w') \<Rightarrow> (reply 500 (server_error ex), w')
      | (Inr None, w') \<Rightarrow> (reply 401 please_log_in, w')
      | (Inr (Some u), w') \<Rightarrow> (CallNext, w'))"

text \<open>\<open>GET /secrets\<close>, lines 133-153. \<open>req.header\<close> gives a string or undefined.\<close>

definition secrets :: "env \<Rightarrow> string option \<Rightarrow> world \<Rightarrow> outcome \<times> world" where
  "secrets e hdr w =
     (case findOne e AccessToken (case hdr of None \<Rightarrow> Undefined | Some t \<Rightarrow> Str t) w of
        (Inl ex, w') \<Rightarrow> (reply 500 (server_error ex), w')
      | (Inr None, w') \<Rightarrow> (reply 401 please_log_in, w')
      | (Inr (Some u), w') \<Rightarrow> (reply 200 (JObj [(''secret'', JStr secretMessage)]), w'))"

text \<open>\<open>POST /sessions\<close>, lines 155-162: no try, so whatever is thrown rejects the
  handler's promise; \<open>res.json\<close> alone replies with status 200.\<close>

definition sessions :: "env \<Rightarrow> body option \<Rightarrow> world \<Rightarrow> outcome \<times> world" where
  "sessions e b w =
     (case b of
        None \<Rightarrow> (Unhandled TypeError, w)
      | Some b \<Rightarrow>
          (case findOne e Name (body_name b) w of
             (Inl ex, w') \<Rightarrow> (Unhandled ex, w')
           | (Inr None, w') \<Rightarrow> (reply 200 not_found, w')
           | (Inr (Some u), w') \<Rightarrow>
               (case bcrypt_compareSync e (body_password b) (password u) of
                  Inl ex \<Rightarrow> (Unhandled ex, w')
                | Inr True \<Rightarrow> (reply 200 (session_info u), w')
                | Inr False \<Rightarrow> (reply 200 not_found, w'))))"

subsection \<open>Requests in sequence\<close>

datatype request =
    Register draws "body option"
  | Login "body option"
  | Secrets "string option"
  | Sessions "body option"

fun handle :: "env \<Rightarrow> request \<Rightarrow> world \<Rightarrow> outcome \<times> world" where
  "handle e (Register d b) w = register e d b w"
| "handle e (Login b) w = login e b w"
| "handle e (Secrets h) w = secrets e h w"
| "handle e (Sessions b) w = sessions e b w"

fun run :: "env \<Rightarrow> request list \<Rightarrow> world \<Rightarrow> world" where
  "run e [] w = w"
| "run e (r # rs) w = run e rs (snd (handle e r w))"

subsection \<open>Reading an outcome\<close>

fun status_of :: "outcome \<Rightarrow> nat option" where
  "status_of (Reply r) = Some (status r)"
| "status_of _ = None"

fun payload_of :: "outcome \<Rightarrow> json option" where
  "payload_of (Reply r) = Some (payload r)"
| "payload_of _ = None"

text \<open>
  The document that registering the name \<open>n\<close> with the password \<open>p\<close> persists when the
  call draws \<open>d\<close>.
\<close>

definition new_account :: "env \<Rightarrow> draws \<Rightarrow> string \<Rightarrow> string \<Rightarrow> user" where
  "new_account e d n p =
     \<lparr>name = n, password = hashSync e p (genSaltSync d),
      accessToken = randomBytes_hex d, oid = new_oid d\<rparr>"

text \<open>
  The contract of the password hasher that the properties of stored passwords rest on:
  a digest verifies against its plaintext, whatever the salt, and is not the plaintext.
\<close>

definition hasher_ok :: "env \<Rightarrow> bool" where
  "hasher_ok e =
     ((\<forall>p s. compareSync e p (hashSync e p s)) \<and> (\<forall>p s. hashSync e p s \<noteq> p))"

subsection \<open>A small instance\<close>

text \<open>
  A hasher that meets the contract (the digest is salt, a dollar sign, plaintext), and
  two registrations, used to run the handlers on concrete requests.
\<close>

definition demo_hash :: "string \<Rightarrow> string \<Rightarrow> string" where
  "demo_hash p s = s @ CHR ''$'' # p"

definition demo_compare :: "string \<Rightarrow> string \<Rightarrow> bool" where
  "demo_compare p h = (drop (length h - Suc (length p)) h = CHR ''$'' # p)"

definition demo_env :: env where
  "demo_env = \<lparr>hashSync = demo_hash, compareSync = demo_compare\<rparr>"

definition alice_draws :: draws where
  "alice_draws = \<lparr>genSaltSync = ''s1'', randomBytes_hex = ''a1b2'', new_oid = ''id1''\<rparr>"

definition bob_draws :: draws where
  "bob_draws = \<lparr>genSaltSync = ''s2'', randomBytes_hex = ''c3d4'', new_oid = ''id2''\<rparr>"

definition alice_body :: body where
  "alice_body = \<lparr>body_name = Str ''alice'', body_password = Str ''pw''\<rparr>"

definition bob_body :: body where
  "bob_body = \<lparr>body_name = Str ''bob'', body_password = Str ''pw''\<rparr>"

definition alice :: user where
  "alice = \<lparr>name = ''alice'', password = ''s1$pw'', accessToken = ''a1b2'', oid = ''id1''\<rparr>"

definition bob :: user where
  "bob = \<lparr>name = ''bob'', password = ''s2$pw'', accessToken = ''c3d4'', oid = ''id2''\<rparr>"

definition world0 :: world where
  "world0 = \<lparr>users = [], faults = []\<rparr>"

definition world1 :: world where
  "world1 = \<lparr>users = [alice], faults = []\<rparr>"

definition world_down :: world where
  "world_down = \<lparr>users = [alice], faults = [True, False]\<rparr>"

section \<open>Properties\<close>

subsection \<open>What the store calls do to the collection\<close>

lemma users_advance: "users (advance w) = users w"
  by (simp add: advance_def)

lemma users_findOne: "users (snd (findOne e p v w)) = users w"
  by (simp add: findOne_def users_advance)

lemma users_save:
  "users (snd (save n p tok i w)) = users w \<or>
   (\<exists>u. fst (save n p tok i w) = Inr u \<and> users (snd (save n p tok i w)) = users w @ [u])"
  by (simp add: save_def Let_def users_advance)

lemma users_login: "users (snd (login e b w)) = users w"
  by (simp add: login_def findOne_def users_advance
           split: option.split sum.split bool.split)

lemma users_sessions: "users (snd (sessions e b w)) = users w"
  by (simp add: sessions_def findOne_def users_advance
           split: option.split sum.split bool.split)

lemma users_secrets: "users (snd (secrets e h w)) = users w"
  by (simp add: secrets_def findOne_def users_advance split: option.split)

lemma users_authenticateUser: "users (snd (authenticateUser e h w)) = users w"
  by (simp add: authenticateUser_def findOne_def users_advance split: option.split)

lemma users_register:
  "users (snd (register e d b w)) = users w \<or>
   (\<exists>u. users (snd (register e d b w)) = users w @ [u])"
proof (cases b)
  case None
  then show ?thesis by (simp add: register_def)
next
  case (Some c)
  show ?thesis
  proof (cases "bcrypt_hashSync e (body_password c) (genSaltSync d)")
    case (Inl ex)
    with Some show ?thesis by (simp add: register_def)
  next
    case (Inr h)
    obtain r w' where sv: "save (body_name c) (Str h) (randomBytes_hex d) (new_oid d) w = (r, w')"
      by (cases "save (body_name c) (Str h) (randomBytes_hex d) (new_oid d) w")
    have w': "snd (register e d b w) = w'"
      using Some Inr sv by (cases r) (simp_all add: register_def)
    from users_save [of "body_name c" "Str h" "randomBytes_hex d" "new_oid d" w] sv
    have "users w' = users w \<or> (\<exists>u. users w' = users w @ [u])" by auto
    with w' show ?thesis by simp
  qed
qed

subsection \<open>What the handlers compute\<close>

lemma matches_Str: "matches e p (Str s) = (\<lambda>u. get_path p u = s)"
  by (rule ext) simp

lemma register_201:
  assumes "register e d b w = (Reply r, w')" and "status r = 201"
  shows "\<exists>n p. b = Some \<lparr>body_name = Str n, body_password = Str p\<rparr> \<and> n \<noteq> [] \<and>
           \<not> store_raises w \<and>
           \<not> list_ex (\<lambda>x. name x = n \<or> oid x = new_oid d) (users w) \<and>
           w' = (advance w)\<lparr>users := users w @ [new_account e d n p]\<rparr> \<and>
           r = \<lparr>status = 201, headers = [], payload = user_info (new_account e d n p)\<rparr>"
proof (cases b)
  case None
  with assms show ?thesis by (simp add: register_def)
next
  case (Some c)
  show ?thesis
  proof (cases "body_password c")
    case (Str p)
    show ?thesis
    proof (cases "body_name c")
      case (Str n)
      have c: "c = \<lparr>body_name = Str n, body_password = Str p\<rparr>"
        using Str \<open>body_password c = Str p\<close> by simp
      from assms Some c show ?thesis
        by (auto simp: register_def bcrypt_hashSync_def save_def validate_def Let_def
              reply_def new_account_def split: if_splits)
    next
      case Undefined
      with assms Some Str show ?thesis
        by (auto simp: register_def bcrypt_hashSync_def save_def validate_def Let_def
              reply_def split: if_splits)
    next
      case Null
      with assms Some Str show ?thesis
        by (auto simp: register_def bcrypt_hashSync_def save_def validate_def Let_def
              reply_def split: if_splits)
    qed
  next
    case Undefined
    with assms Some show ?thesis by (auto simp: register_def bcrypt_hashSync_def reply_def)
  next
    case Null
    with assms Some show ?thesis by (auto simp: register_def bcrypt_hashSync_def reply_def)
  qed
qed

lemma register_accepts:
  assumes "n \<noteq> []" and "hashSync e p (genSaltSync d) \<noteq> []" and "\<not> store_raises w"
    and "\<not> list_ex (\<lambda>x. name x = n \<or> oid x = new_oid d) (users w)"
  shows "register e d (Some \<lparr>body_name = Str n, body_password = Str p\<rparr>) w =
           (reply 201 (user_info (new_account e d n p)),
            (advance w)\<lparr>users := users w @ [new_account e d n p]\<rparr>)"
  using assms
  by (simp add: register_def bcrypt_hashSync_def save_def validate_def Let_def new_account_def)

lemma users_run: "\<exists>zs. users (run e rs w) = users w @ zs"
proof (induction rs arbitrary: w)
  case Nil
  show ?case by simp
next
  case (Cons r rs)
  have step: "\<exists>ys. users (snd (handle e r w)) = users w @ ys"
  proof (cases r)
    case (Register d b)
    with users_register [of e d b w] show ?thesis by auto
  qed (simp_all add: users_login users_secrets users_sessions)
  then obtain ys where ys: "users (snd (handle e r w)) = users w @ ys" ..
  from Cons.IH [of "snd (handle e r w)"] obtain zs
    where "users (run e rs (snd (handle e r w))) = users (snd (handle e r w)) @ zs" ..
  with ys show ?case by simp
qed

lemma login_200:
  assumes "login e b w = (Reply r, w')" and "status r = 200"
  shows "\<exists>c u. b = Some c \<and> find (matches e Name (body_name c)) (users w) = Some u \<and>
           payload r = user_info u"
  using assms
  by (auto simp: login_def findOne_def reply_def bcrypt_compareSync_def
        split: option.splits if_splits sum.splits bool.splits jsval.splits)

lemma find_name_fresh:
  assumes "\<not> list_ex (\<lambda>x. name x = n \<or> oid x = i) xs" and "name u = n"
  shows "find (\<lambda>x. name x = n) (xs @ u # zs) = Some u"
  using assms by (induction xs) auto

lemma find_token_None:
  "(find (\<lambda>u. accessToken u = t) xs = None) = (t \<notin> accessToken ` set xs)"
  by (auto simp: find_None_iff)

lemma register_not_201:
  assumes "status_of (fst (register e d (Some b) w)) \<noteq> Some 201"
  shows "\<exists>ex. fst (register e d (Some b) w) = reply 400 (could_not_create ex) \<and>
              users (snd (register e d (Some b) w)) = users w"
  using assms
  by (auto simp: register_def bcrypt_hashSync_def save_def Let_def reply_def users_advance
        split: jsval.splits if_splits)

lemma filter_name_fresh:
  assumes "\<not> list_ex (\<lambda>x. name x = n \<or> oid x = i) xs"
  shows "filter (\<lambda>x. name x = n) xs = []"
  using assms by (induction xs) auto

lemma login_answer:
  assumes "\<not> store_raises w" and "body_password c = Str p"
  shows "fst (login e (Some c) w) =
           (case find (matches e Name (body_name c)) (users w) of
              None \<Rightarrow> reply 400 credentials_do_not_match
            | Some u \<Rightarrow>
                if compareSync e p (password u)
                then Reply \<lparr>status = 200,
                            headers = [(''Access-Control-Allow-Origin'',
                                        ''https://emilia-michelle-project-auth.netlify.app'')],
                            payload = user_info u\<rparr>
                else reply 400 credentials_do_not_match)"
  using assms
  by (simp add: login_def findOne_def bcrypt_compareSync_def split: option.split)

lemma sessions_answer:
  assumes "\<not> store_raises w" and "body_password c = Str p"
  shows "fst (sessions e (Some c) w) =
           (case find (matches e Name (body_name c)) (users w) of
              None \<Rightarrow> reply 200 not_found
            | Some u \<Rightarrow>
                if compareSync e p (password u) then reply 200 (session_info u)
                else reply 200 not_found)"
  using assms
  by (simp add: sessions_def findOne_def bcrypt_compareSync_def split: option.split)

lemma login_accepts:
  assumes "\<not> store_raises w" and "find (\<lambda>x. name x = n) (users w) = Some u"
    and "compareSync e p (password u)"
  shows "login e (Some \<lparr>body_name = Str n, body_password = Str p\<rparr>) w =
           (Reply \<lparr>status = 200,
                   headers = [(''Access-Control-Allow-Origin'',
                               ''https://emilia-michelle-project-auth.netlify.app'')],
                   payload = user_info u\<rparr>, advance w)"
  using assms by (simp add: login_def findOne_def bcrypt_compareSync_def matches_Str)

lemma find_undefined: "find (matches e p Undefined) xs = None"
  by (simp add: find_None_iff)


lemma login_missing_password:
  assumes "\<not> store_raises w" and "body_password b = Undefined"
  shows "fst (login e (Some b) w) =
           (case find (matches e Name (body_name b)) (users w) of
              None \<Rightarrow> reply 400 credentials_do_not_match
            | Some u \<Rightarrow> reply 500 (server_error BcryptError))"
  using assms
  by (simp add: login_def findOne_def bcrypt_compareSync_def split: option.split)

lemma sessions_store_failure:
  assumes "store_raises w"
  shows "sessions e (Some b) w = (Unhandled StoreError, advance w)"
  using assms by (simp add: sessions_def findOne_def)

subsection \<open>The small instance, run\<close>

lemma register_alice:
  "register demo_env alice_draws (Some alice_body) world0 =
     (reply 201 (user_info alice), world1)"
  by (simp add: register_def bcrypt_hashSync_def save_def validate_def store_raises_def Let_def
        advance_def demo_env_def demo_hash_def alice_draws_def alice_body_def world0_def
        world1_def alice_def)

lemma register_bob:
  "register demo_env bob_draws (Some bob_body) world1 =
     (reply 201 (user_info bob), \<lparr>users = [alice, bob], faults = []\<rparr>)"
  by (simp add: register_def bcrypt_hashSync_def save_def validate_def store_raises_def Let_def
        advance_def demo_env_def demo_hash_def bob_draws_def bob_body_def
        world1_def alice_def bob_def)

lemma login_alice:
  "login demo_env (Some alice_body) \<lparr>users = [alice, bob], faults = []\<rparr> =
     (Reply \<lparr>status = 200,
             headers = [(''Access-Control-Allow-Origin'',
                         ''https://emilia-michelle-project-auth.netlify.app'')],
             payload = user_info alice\<rparr>, \<lparr>users = [alice, bob], faults = []\<rparr>)"
  by (simp add: login_def findOne_def bcrypt_compareSync_def store_raises_def
        advance_def demo_env_def demo_compare_def alice_body_def alice_def bob_def)

lemma login_wrong_password:
  "fst (login demo_env (Some \<lparr>body_name = Str ''alice'', body_password = Str ''guess''\<rparr>) world1)
     = reply 400 credentials_do_not_match"
  by (simp add: login_def findOne_def bcrypt_compareSync_def store_raises_def
        demo_env_def demo_compare_def world1_def alice_def)

lemma login_unknown_name:
  "fst (login demo_env (Some \<lparr>body_name = Str ''nobody'', body_password = Str ''guess''\<rparr>) world1)
     = reply 400 credentials_do_not_match"
  by (simp add: login_def findOne_def bcrypt_compareSync_def store_raises_def
        demo_env_def demo_compare_def world1_def alice_def)

lemma demo_hasher_ok: "hasher_ok demo_env"
  by (simp add: hasher_ok_def demo_env_def demo_hash_def demo_compare_def)

section \<open>The claims\<close>

subsection \<open>C1: the secret is served exactly to stored tokens\<close>

text \<open>
  C1. When the store answers, \<open>GET /secrets\<close> with the header value \<open>t\<close> replies 200 with
  the fixed secret string if and only if some stored account has \<open>t\<close> as its
  \<open>accessToken\<close>. For a token that no stored account holds (so in particular one that
  was never issued) the reply is 401 with \<open>loggedOut: true\<close>, and the token lookup
  \<open>User.findOne({accessToken: t})\<close> gives null.
\<close>

theorem secrets_iff_token_stored:
  assumes "\<not> store_raises w"
  shows "((fst (secrets e (Some t) w) =
            Reply \<lparr>status = 200, headers = [],
                   payload = JObj [(''secret'', JStr ''This is the secret page! Woop woop'')]\<rparr>)
          = (t \<in> accessToken ` set (users w))) \<and>
         (t \<notin> accessToken ` set (users w) \<longrightarrow>
            fst (secrets e (Some t) w) =
              Reply \<lparr>status = 401, headers = [],
                     payload = JObj [(''success'', JBool False),
                                     (''response'', JStr ''Please log in''),
                                     (''loggedOut'', JBool True)]\<rparr> \<and>
            fst (findOne e AccessToken (Str t) w) = Inr None)"
proof (cases "find (\<lambda>u. accessToken u = t) (users w)")
  case None
  then have "t \<notin> accessToken ` set (users w)" by (simp add: find_token_None)
  with None assms show ?thesis
    by (simp add: secrets_def findOne_def matches_Str reply_def please_log_in_def)
next
  case (Some u)
  then have "t \<in> accessToken ` set (users w)" using find_token_None [of t "users w"] by simp
  with Some assms show ?thesis
    by (simp add: secrets_def findOne_def matches_Str reply_def secretMessage_def)
qed

text \<open>The instance: the token of alice is served, the token \<open>garbage\<close> is refused.\<close>

theorem secrets_iff_token_stored_witness:
  "\<not> store_raises world1 \<and>
   ''a1b2'' \<in> accessToken ` set (users world1) \<and>
   fst (secrets demo_env (Some ''a1b2'') world1) =
     Reply \<lparr>status = 200, headers = [],
            payload = JObj [(''secret'', JStr ''This is the secret page! Woop woop'')]\<rparr> \<and>
   ''garbage'' \<notin> accessToken ` set (users world1) \<and>
   fst (secrets demo_env (Some ''garbage'') world1) =
     Reply \<lparr>status = 401, headers = [],
            payload = JObj [(''success'', JBool False), (''response'', JStr ''Please log in''),
                            (''loggedOut'', JBool True)]\<rparr> \<and>
   fst (findOne demo_env AccessToken (Str ''garbage'') world1) = Inr None"
proof -
  have up: "\<not> store_raises world1" by (simp add: store_raises_def world1_def)
  have toks: "accessToken ` set (users world1) = {''a1b2''}" by (simp add: world1_def alice_def)
  from secrets_iff_token_stored [OF up, of demo_env "''a1b2''"]
       secrets_iff_token_stored [OF up, of demo_env "''garbage''"] up toks
  show ?thesis by simp
qed

subsection \<open>C2: login returns the token of the registration\<close>

text \<open>
  C2. After a successful registration (status 201) and any further requests \<open>rs\<close>, a
  successful login (status 200) with the same name and password returns the same body
  as the registration did: the same name, id and \<open>accessToken\<close>, the token drawn when
  the account was created. No request issues another token for the account.
\<close>

theorem login_returns_registered_token:
  assumes "status_of (fst (register e d (Some b) w)) = Some 201"
    and "status_of (fst (login e (Some b) (run e rs (snd (register e d (Some b) w))))) = Some 200"
  shows "payload_of (fst (login e (Some b) (run e rs (snd (register e d (Some b) w))))) =
           payload_of (fst (register e d (Some b) w)) \<and>
         payload_of (fst (register e d (Some b) w)) =
           Some (JObj [(''success'', JBool True),
                       (''response'', JObj [(''name'', JStr (str_of (body_name b))),
                                            (''id'', JStr (new_oid d)),
                                            (''accessToken'', JStr (randomBytes_hex d))])])"
proof -
  obtain o1 w1 where reg: "register e d (Some b) w = (o1, w1)"
    by (cases "register e d (Some b) w")
  with assms(1) obtain r where o1: "o1 = Reply r" and st: "status r = 201"
    by (cases o1) simp_all
  obtain o2 w2 where lg: "login e (Some b) (run e rs w1) = (o2, w2)"
    by (cases "login e (Some b) (run e rs w1)")
  with assms(2) reg obtain r' where o2: "o2 = Reply r'" and st': "status r' = 200"
    by (cases o2) simp_all
  from register_201 [OF reg [unfolded o1] st] obtain n p where
    b: "b = \<lparr>body_name = Str n, body_password = Str p\<rparr>" and
    fresh: "\<not> list_ex (\<lambda>x. name x = n \<or> oid x = new_oid d) (users w)" and
    w1: "w1 = (advance w)\<lparr>users := users w @ [new_account e d n p]\<rparr>" and
    r: "r = \<lparr>status = 201, headers = [], payload = user_info (new_account e d n p)\<rparr>"
    by auto
  obtain zs where "users (run e rs w1) = users w1 @ zs" using users_run by blast
  then have us: "users (run e rs w1) = users w @ new_account e d n p # zs"
    using w1 by simp
  have "name (new_account e d n p) = n" by (simp add: new_account_def)
  with fresh
  have found: "find (\<lambda>x. name x = n) (users (run e rs w1)) = Some (new_account e d n p)"
    unfolding us by (rule find_name_fresh)
  from login_200 [OF lg [unfolded o2] st'] obtain u where
    "find (matches e Name (body_name b)) (users (run e rs w1)) = Some u" and
    r': "payload r' = user_info u" by auto
  with found b have "u = new_account e d n p" by (simp add: matches_Str)
  with r r' b reg lg o1 o2 show ?thesis by (simp add: user_info_def new_account_def)
qed

text \<open>The instance: alice registers, bob registers, alice logs in and gets \<open>a1b2\<close> again.\<close>

theorem login_returns_registered_token_witness:
  "status_of (fst (register demo_env alice_draws (Some alice_body) world0)) = Some 201 \<and>
   status_of (fst (login demo_env (Some alice_body)
      (run demo_env [Register bob_draws (Some bob_body)]
         (snd (register demo_env alice_draws (Some alice_body) world0))))) = Some 200 \<and>
   payload_of (fst (login demo_env (Some alice_body)
      (run demo_env [Register bob_draws (Some bob_body)]
         (snd (register demo_env alice_draws (Some alice_body) world0))))) =
     Some (JObj [(''success'', JBool True),
                 (''response'', JObj [(''name'', JStr ''alice''), (''id'', JStr ''id1''),
                                      (''accessToken'', JStr ''a1b2'')])])"
proof -
  have h1: "status_of (fst (register demo_env alice_draws (Some alice_body) world0)) = Some 201"
    by (simp add: register_alice reply_def)
  have h2: "status_of (fst (login demo_env (Some alice_body)
      (run demo_env [Register bob_draws (Some bob_body)]
         (snd (register demo_env alice_draws (Some alice_body) world0))))) = Some 200"
    by (simp add: register_alice register_bob login_alice)
  from login_returns_registered_token [OF h1 h2] h1 h2 show ?thesis
    by (simp add: alice_body_def alice_draws_def)
qed

subsection \<open>C3: what register refuses\<close>

text \<open>
  C3. Register replies 400 \<open>Could not create user\<close> and persists nothing when the name is
  missing (undefined or null), when the password is missing, or when the name is that of
  a stored account. So after one successful registration of a name, a second
  registration of that name is refused, the collection stays as it was, and it holds
  exactly one document with that name.
\<close>

theorem register_rejects:
  "((body_name b = Undefined \<or> body_name b = Null \<or>
     body_password b = Undefined \<or> body_password b = Null \<or>
     (\<exists>u \<in> set (users w). body_name b = Str (name u))) \<longrightarrow>
      (\<exists>ex. fst (register e d (Some b) w) =
               Reply \<lparr>status = 400, headers = [], payload = could_not_create ex\<rparr>) \<and>
      users (snd (register e d (Some b) w)) = users w) \<and>
   (register e d1 (Some b1) w0 = (o1, w1) \<and> status_of o1 = Some 201 \<and>
    body_name b2 = body_name b1 \<longrightarrow>
      (\<exists>ex. fst (register e d2 (Some b2) w1) =
               Reply \<lparr>status = 400, headers = [], payload = could_not_create ex\<rparr>) \<and>
      users (snd (register e d2 (Some b2) w1)) = users w1 \<and>
      length (filter (\<lambda>u. Str (name u) = body_name b1) (users w1)) = 1)"
proof (intro conjI impI)
  assume bad: "body_name b = Undefined \<or> body_name b = Null \<or>
     body_password b = Undefined \<or> body_password b = Null \<or>
     (\<exists>u \<in> set (users w). body_name b = Str (name u))"
  have "status_of (fst (register e d (Some b) w)) \<noteq> Some 201"
  proof
    assume ok: "status_of (fst (register e d (Some b) w)) = Some 201"
    obtain o' w' where reg: "register e d (Some b) w = (o', w')"
      by (cases "register e d (Some b) w")
    with ok obtain r where "o' = Reply r" and "status r = 201" by (cases o') simp_all
    with register_201 [of e d "Some b" w r w'] reg obtain n p where
      "b = \<lparr>body_name = Str n, body_password = Str p\<rparr>" and
      "\<not> list_ex (\<lambda>x. name x = n \<or> oid x = new_oid d) (users w)" by auto
    with bad show False by (auto simp: list_ex_iff)
  qed
  from register_not_201 [OF this]
  show "\<exists>ex. fst (register e d (Some b) w) =
               Reply \<lparr>status = 400, headers = [], payload = could_not_create ex\<rparr>"
    and "users (snd (register e d (Some b) w)) = users w"
    by (auto simp: reply_def)
next
  assume first: "register e d1 (Some b1) w0 = (o1, w1) \<and> status_of o1 = Some 201 \<and>
    body_name b2 = body_name b1"
  then obtain r where o1: "o1 = Reply r" and st: "status r = 201" by (cases o1) simp_all
  from first o1 have reg: "register e d1 (Some b1) w0 = (Reply r, w1)" by simp
  from register_201 [OF reg st] obtain n p where
    b1: "b1 = \<lparr>body_name = Str n, body_password = Str p\<rparr>" and
    fresh: "\<not> list_ex (\<lambda>x. name x = n \<or> oid x = new_oid d1) (users w0)" and
    w1: "users w1 = users w0 @ [new_account e d1 n p]"
    by auto
  have nm: "name (new_account e d1 n p) = n" by (simp add: new_account_def)
  have "status_of (fst (register e d2 (Some b2) w1)) \<noteq> Some 201"
  proof
    assume ok: "status_of (fst (register e d2 (Some b2) w1)) = Some 201"
    obtain o' w' where reg2: "register e d2 (Some b2) w1 = (o', w')"
      by (cases "register e d2 (Some b2) w1")
    with ok obtain r' where "o' = Reply r'" and "status r' = 201" by (cases o') simp_all
    with register_201 [of e d2 "Some b2" w1 r' w'] reg2 obtain n' p' where
      "b2 = \<lparr>body_name = Str n', body_password = Str p'\<rparr>" and
      "\<not> list_ex (\<lambda>x. name x = n' \<or> oid x = new_oid d2) (users w1)" by auto
    with first b1 w1 nm show False by (auto simp: list_ex_iff)
  qed
  from register_not_201 [OF this]
  show "\<exists>ex. fst (register e d2 (Some b2) w1) =
               Reply \<lparr>status = 400, headers = [], payload = could_not_create ex\<rparr>"
    and "users (snd (register e d2 (Some b2) w1)) = users w1"
    by (auto simp: reply_def)
  from filter_name_fresh [OF fresh] b1 w1 nm
  show "length (filter (\<lambda>u. Str (name u) = body_name b1) (users w1)) = 1"
    by simp
qed

text \<open>
  The instance: a body without a name is refused, and so is a second registration of
  alice; the store keeps the one alice.
\<close>

theorem register_rejects_witness:
  "status_of (fst (register demo_env bob_draws
      (Some \<lparr>body_name = Undefined, body_password = Str ''pw''\<rparr>) world1)) = Some 400 \<and>
   users (snd (register demo_env bob_draws
      (Some \<lparr>body_name = Undefined, body_password = Str ''pw''\<rparr>) world1)) = [alice] \<and>
   register demo_env alice_draws (Some alice_body) world0 = (reply 201 (user_info alice), world1) \<and>
   status_of (fst (register demo_env bob_draws (Some alice_body) world1)) = Some 400 \<and>
   users (snd (register demo_env bob_draws (Some alice_body) world1)) = [alice] \<and>
   length (filter (\<lambda>u. Str (name u) = Str ''alice'') (users world1)) = 1"
proof -
  have st: "status_of (reply 201 (user_info alice)) = Some 201" by (simp add: reply_def)
  from register_rejects
         [where b = "\<lparr>body_name = Undefined, body_password = Str ''pw''\<rparr>" and w = world1
            and e = demo_env and d = bob_draws and ?d1.0 = alice_draws and ?b1.0 = alice_body
            and ?w1.0 = world1 and ?o1.0 = "reply 201 (user_info alice)" and ?w0.0 = world0
            and ?b2.0 = alice_body and ?d2.0 = bob_draws]
       register_alice st
  show ?thesis by (auto simp: world1_def alice_body_def)
qed

subsection \<open>C4: the two ways a login fails look the same\<close>



subsection \<open>C5: what a successful registration does\<close>

text \<open>
  C5. When register replies 201, the body held a name and a password that are strings,
  the collection has grown by exactly one document behind the unchanged earlier ones,
  that document holds the name, the hash of the password under the salt drawn in this
  call and the token drawn in this call, and the reply carries the name, the id and the
  token of that document.
\<close>

theorem register_success_effect:
  assumes "status_of (fst (register e d b w)) = Some 201"
  shows "\<exists>n p. b = Some \<lparr>body_name = Str n, body_password = Str p\<rparr> \<and>
           users (snd (register e d b w)) =
             users w @ [\<lparr>name = n, password = hashSync e p (genSaltSync d),
                         accessToken = randomBytes_hex d, oid = new_oid d\<rparr>] \<and>
           fst (register e d b w) =
             Reply \<lparr>status = 201, headers = [],
                    payload = JObj [(''success'', JBool True),
                                    (''response'', JObj [(''name'', JStr n),
                                                         (''id'', JStr (new_oid d)),
                                                         (''accessToken'',
                                                          JStr (randomBytes_hex d))])]\<rparr>"
proof -
  obtain o1 w1 where reg: "register e d b w = (o1, w1)" by (cases "register e d b w")
  with assms obtain r where o1: "o1 = Reply r" and st: "status r = 201"
    by (cases o1) simp_all
  from register_201 [OF reg [unfolded o1] st] reg o1 show ?thesis
    by (auto simp: new_account_def user_info_def)
qed

text \<open>The instance: alice registers in the empty store.\<close>

theorem register_success_effect_witness:
  "status_of (fst (register demo_env alice_draws (Some alice_body) world0)) = Some 201 \<and>
   users (snd (register demo_env alice_draws (Some alice_body) world0)) =
     users world0 @ [\<lparr>name = ''alice'', password = demo_hash ''pw'' ''s1'',
                       accessToken = ''a1b2'', oid = ''id1''\<rparr>]"
proof -
  have h: "status_of (fst (register demo_env alice_draws (Some alice_body) world0)) = Some 201"
    by (simp add: register_alice reply_def)
  from register_success_effect [OF h] obtain n p where
    "Some alice_body = Some \<lparr>body_name = Str n, body_password = Str p\<rparr>" and
    "users (snd (register demo_env alice_draws (Some alice_body) world0)) =
       users world0 @ [\<lparr>name = n, password = hashSync demo_env p (genSaltSync alice_draws),
                         accessToken = randomBytes_hex alice_draws,
                         oid = new_oid alice_draws\<rparr>]"
    by blast
  then show ?thesis using h
    by (simp add: alice_body_def alice_draws_def demo_env_def)
qed

subsection \<open>C6: stored passwords are salted digests\<close>

text \<open>
  C6. With a hasher that meets its contract, two successful registrations of the same
  plaintext persist the digest under the salt of the first call and the digest under
  the salt of the second call (so they differ whenever the hasher separates the two
  salts), neither stored value is the plaintext, and a login with the plaintext
  succeeds for both accounts.
\<close>

theorem stored_password_is_salted_digest:
  assumes "hasher_ok e"
    and "register e d1 (Some \<lparr>body_name = Str n1, body_password = Str p\<rparr>) w = (o1, w1)"
    and "status_of o1 = Some 201"
    and "register e d2 (Some \<lparr>body_name = Str n2, body_password = Str p\<rparr>) w1 = (o2, w2)"
    and "status_of o2 = Some 201"
    and "\<not> store_raises w2"
  shows "\<exists>u1 u2. users w2 = users w @ [u1, u2] \<and>
           name u1 = n1 \<and> password u1 = hashSync e p (genSaltSync d1) \<and> password u1 \<noteq> p \<and>
           name u2 = n2 \<and> password u2 = hashSync e p (genSaltSync d2) \<and> password u2 \<noteq> p \<and>
           status_of (fst (login e (Some \<lparr>body_name = Str n1, body_password = Str p\<rparr>) w2))
             = Some 200 \<and>
           status_of (fst (login e (Some \<lparr>body_name = Str n2, body_password = Str p\<rparr>) w2))
             = Some 200"
proof -
  let ?u1 = "new_account e d1 n1 p" and ?u2 = "new_account e d2 n2 p"
  from assms(3) obtain r1 where o1: "o1 = Reply r1" and st1: "status r1 = 201"
    by (cases o1) simp_all
  from assms(5) obtain r2 where o2: "o2 = Reply r2" and st2: "status r2 = 201"
    by (cases o2) simp_all
  from register_201 [OF assms(2) [unfolded o1] st1]
  have fresh1: "\<not> list_ex (\<lambda>x. name x = n1 \<or> oid x = new_oid d1) (users w)"
    and w1: "users w1 = users w @ [?u1]" by auto
  from register_201 [OF assms(4) [unfolded o2] st2]
  have fresh2: "\<not> list_ex (\<lambda>x. name x = n2 \<or> oid x = new_oid d2) (users w1)"
    and w2: "users w2 = users w1 @ [?u2]" by auto
  have us: "users w2 = users w @ [?u1, ?u2]" using w1 w2 by simp
  have nm1: "name ?u1 = n1" and nm2: "name ?u2 = n2" by (simp_all add: new_account_def)
  have pw1: "password ?u1 = hashSync e p (genSaltSync d1)"
    and pw2: "password ?u2 = hashSync e p (genSaltSync d2)" by (simp_all add: new_account_def)
  from assms(1) have ne1: "password ?u1 \<noteq> p" and ne2: "password ?u2 \<noteq> p"
    and ok1: "compareSync e p (password ?u1)" and ok2: "compareSync e p (password ?u2)"
    unfolding pw1 pw2 hasher_ok_def by blast+
  have f1: "find (\<lambda>x. name x = n1) (users w2) = Some ?u1"
    using find_name_fresh [OF fresh1 nm1, of "[?u2]"] us by simp
  have f2: "find (\<lambda>x. name x = n2) (users w2) = Some ?u2"
    using find_name_fresh [OF fresh2 nm2, of "[]"] w2 by simp
  have l1: "status_of (fst (login e (Some \<lparr>body_name = Str n1, body_password = Str p\<rparr>) w2))
              = Some 200"
    by (simp add: login_accepts [OF assms(6) f1 ok1])
  have l2: "status_of (fst (login e (Some \<lparr>body_name = Str n2, body_password = Str p\<rparr>) w2))
              = Some 200"
    by (simp add: login_accepts [OF assms(6) f2 ok2])
  from us nm1 nm2 pw1 pw2 ne1 ne2 l1 l2 show ?thesis by blast
qed

text \<open>
  The instance: alice and bob register the same password; the digests differ by the
  salt and both log in with it.
\<close>

theorem stored_password_is_salted_digest_witness:
  "hasher_ok demo_env \<and>
   register demo_env alice_draws (Some \<lparr>body_name = Str ''alice'', body_password = Str ''pw''\<rparr>)
     world0 = (reply 201 (user_info alice), world1) \<and>
   register demo_env bob_draws (Some \<lparr>body_name = Str ''bob'', body_password = Str ''pw''\<rparr>)
     world1 = (reply 201 (user_info bob), \<lparr>users = [alice, bob], faults = []\<rparr>) \<and>
   password alice = ''s1$pw'' \<and> password bob = ''s2$pw'' \<and>
   status_of (fst (login demo_env
      (Some \<lparr>body_name = Str ''alice'', body_password = Str ''pw''\<rparr>)
      \<lparr>users = [alice, bob], faults = []\<rparr>)) = Some 200 \<and>
   status_of (fst (login demo_env
      (Some \<lparr>body_name = Str ''bob'', body_password = Str ''pw''\<rparr>)
      \<lparr>users = [alice, bob], faults = []\<rparr>)) = Some 200"
proof -
  have r1: "register demo_env alice_draws
              (Some \<lparr>body_name = Str ''alice'', body_password = Str ''pw''\<rparr>) world0 =
            (reply 201 (user_info alice), world1)"
    using register_alice by (simp add: alice_body_def)
  have r2: "register demo_env bob_draws
              (Some \<lparr>body_name = Str ''bob'', body_password = Str ''pw''\<rparr>) world1 =
            (reply 201 (user_info bob), \<lparr>users = [alice, bob], faults = []\<rparr>)"
    using register_bob by (simp add: bob_body_def)
  have st: "status_of (reply 201 j) = Some 201" for j by (simp add: reply_def)
  have up: "\<not> store_raises \<lparr>users = [alice, bob], faults = []\<rparr>"
    by (simp add: store_raises_def)
  from stored_password_is_salted_digest [OF demo_hasher_ok r1 st r2 st up] r1 r2 demo_hasher_ok
  show ?thesis by (auto simp: alice_def bob_def)
qed

subsection \<open>C7: stored accounts are never changed\<close>

text \<open>
  C7. Login, the token lookup, \<open>GET /secrets\<close>, the middleware and \<open>POST /sessions\<close> leave
  the collection exactly as it was, so every account keeps its name, password hash and
  \<open>accessToken\<close>. Register at most appends one document behind the existing ones, and
  so does every sequence of requests: no account is updated, given a new token or
  deleted.
\<close>

theorem accounts_never_modified:
  "users (snd (login e b w)) = users w \<and>
   users (snd (findOne e p v w)) = users w \<and>
   users (snd (secrets e h w)) = users w \<and>
   users (snd (authenticateUser e h w)) = users w \<and>
   users (snd (sessions e b w)) = users w \<and>
   (\<exists>ys. users (snd (register e d b w)) = users w @ ys \<and> length ys \<le> 1) \<and>
   (\<exists>zs. users (run e rs w) = users w @ zs)"
  using users_register [of e d b w] users_run [of e rs w]
  by (auto simp: users_login users_findOne users_secrets users_authenticateUser users_sessions)

subsection \<open>C8: sessions and login agree\<close>

text \<open>
  C8. For the same request body and store, \<open>POST /sessions\<close> answers with a
  \<open>{userId, accessToken}\<close> body exactly when \<open>POST /login\<close> answers 200, and then the id
  and the token are those of the login reply. It answers \<open>{notFound: true}\<close> exactly
  when login answers 400, that is when the credentials do not match.
\<close>

theorem sessions_agrees_with_login:
  "(payload_of (fst (login e b w)) =
      Some (JObj [(''success'', JBool True),
                  (''response'', JObj [(''name'', JStr n), (''id'', JStr i),
                                       (''accessToken'', JStr t)])]) \<longrightarrow>
    fst (sessions e b w) =
      Reply \<lparr>status = 200, headers = [],
             payload = JObj [(''userId'', JStr i), (''accessToken'', JStr t)]\<rparr>) \<and>
   (payload_of (fst (sessions e b w)) =
      Some (JObj [(''userId'', JStr i), (''accessToken'', JStr t)]) \<longrightarrow>
    (\<exists>n'. fst (login e b w) =
       Reply \<lparr>status = 200,
              headers = [(''Access-Control-Allow-Origin'',
                          ''https://emilia-michelle-project-auth.netlify.app'')],
              payload = JObj [(''success'', JBool True),
                              (''response'', JObj [(''name'', JStr n'), (''id'', JStr i),
                                                   (''accessToken'', JStr t)])]\<rparr>)) \<and>
   ((status_of (fst (login e b w)) = Some 200) =
    (\<exists>i' t'. payload_of (fst (sessions e b w)) =
       Some (JObj [(''userId'', JStr i'), (''accessToken'', JStr t')]))) \<and>
   ((status_of (fst (login e b w)) = Some 400) =
    (fst (sessions e b w) =
      Reply \<lparr>status = 200, headers = [], payload = JObj [(''notFound'', JBool True)]\<rparr>))"
proof (cases b)
  case None
  then show ?thesis by (simp add: login_def sessions_def)
next
  case (Some c')
  show ?thesis
  proof (cases "store_raises w")
    case True
    with Some show ?thesis
      by (simp add: login_def sessions_def findOne_def reply_def server_error_def)
  next
    case up: False
    show ?thesis
    proof (cases "body_password c'")
      case (Str p')
      show ?thesis
        unfolding Some login_answer [OF up Str] sessions_answer [OF up Str]
        by (auto simp: reply_def user_info_def session_info_def not_found_def
              credentials_do_not_match_def split: option.splits)
    next
      case Undefined
      with Some up show ?thesis
        by (auto simp: login_def sessions_def findOne_def bcrypt_compareSync_def reply_def
              server_error_def credentials_do_not_match_def not_found_def
              split: option.splits)
    next
      case Null
      with Some up show ?thesis
        by (auto simp: login_def sessions_def findOne_def bcrypt_compareSync_def reply_def
              server_error_def credentials_do_not_match_def not_found_def
              split: option.splits)
    qed
  qed
qed

text \<open>
  The instance: alice with her password gets her id and token from both; alice with a
  wrong password gets 400 from login and \<open>notFound\<close> from sessions.
\<close>

theorem sessions_agrees_with_login_witness:
  "payload_of (fst (login demo_env (Some alice_body) \<lparr>users = [alice, bob], faults = []\<rparr>)) =
     Some (JObj [(''success'', JBool True),
                 (''response'', JObj [(''name'', JStr ''alice''), (''id'', JStr ''id1''),
                                      (''accessToken'', JStr ''a1b2'')])]) \<and>
   fst (sessions demo_env (Some alice_body) \<lparr>users = [alice, bob], faults = []\<rparr>) =
     Reply \<lparr>status = 200, headers = [],
            payload = JObj [(''userId'', JStr ''id1''), (''accessToken'', JStr ''a1b2'')]\<rparr> \<and>
   status_of (fst (login demo_env
      (Some \<lparr>body_name = Str ''alice'', body_password = Str ''guess''\<rparr>) world1)) = Some 400 \<and>
   fst (sessions demo_env
      (Some \<lparr>body_name = Str ''alice'', body_password = Str ''guess''\<rparr>) world1) =
     Reply \<lparr>status = 200, headers = [], payload = JObj [(''notFound'', JBool True)]\<rparr>"
proof -
  have "user_info alice =
          JObj [(''success'', JBool True),
                (''response'', JObj [(''name'', JStr ''alice''), (''id'', JStr ''id1''),
                                     (''accessToken'', JStr ''a1b2'')])]"
    by (simp add: user_info_def alice_def)
  then have ok: "payload_of (fst (login demo_env (Some alice_body)
               \<lparr>users = [alice, bob], faults = []\<rparr>)) =
     Some (JObj [(''success'', JBool True),
                 (''response'', JObj [(''name'', JStr ''alice''), (''id'', JStr ''id1''),
                                      (''accessToken'', JStr ''a1b2'')])])"
    by (simp add: login_alice)
  have bad: "status_of (fst (login demo_env
      (Some \<lparr>body_name = Str ''alice'', body_password = Str ''guess''\<rparr>) world1)) = Some 400"
    by (simp add: login_wrong_password reply_def)
  from sessions_agrees_with_login
         [where e = demo_env and b = "Some alice_body"
            and w = "\<lparr>users = [alice, bob], faults = []\<rparr>"
            and n = "''alice''" and i = "''id1''" and t = "''a1b2''"]
       sessions_agrees_with_login
         [where e = demo_env
            and b = "Some \<lparr>body_name = Str ''alice'', body_password = Str ''guess''\<rparr>"
            and w = world1]
       ok bad
  show ?thesis by simp
qed

subsection \<open>C9: a failing store\<close>

text \<open>
  C9, as the code has it. When the store call raises, login, \<open>GET /secrets\<close> and the
  middleware reply 500 with \<open>success: false\<close> and the error, and register (for a body
  that passes hashing and validation, so that the store is reached) replies 400
  \<open>Could not create user\<close> with the error. In each case the handler has made that one
  store call only (the script is advanced by one), so nothing is retried.
\<close>

theorem store_failure_reported:
  assumes "store_raises w"
  shows "login e (Some b) w =
           (Reply \<lparr>status = 500, headers = [],
                   payload = JObj [(''success'', JBool False), (''response'', JExn StoreError)]\<rparr>,
            advance w) \<and>
         secrets e h w =
           (Reply \<lparr>status = 500, headers = [],
                   payload = JObj [(''success'', JBool False), (''response'', JExn StoreError)]\<rparr>,
            advance w) \<and>
         authenticateUser e h w =
           (Reply \<lparr>status = 500, headers = [],
                   payload = JObj [(''success'', JBool False), (''response'', JExn StoreError)]\<rparr>,
            advance w) \<and>
         (required_ok (body_name b) \<and> body_password b = Str p \<and>
          hashSync e p (genSaltSync d) \<noteq> [] \<longrightarrow>
          register e d (Some b) w =
            (Reply \<lparr>status = 400, headers = [],
                    payload = JObj [(''success'', JBool False), (''response'', JExn StoreError),
                                    (''message'', JStr ''Could not create user'')]\<rparr>,
             advance w))"
  using assms
  by (simp add: login_def secrets_def authenticateUser_def register_def findOne_def save_def
        validate_def bcrypt_hashSync_def reply_def server_error_def could_not_create_def)

text \<open>
  The instance: the next store call raises and the one after would not; each handler
  reports the failure and leaves the second call unused.
\<close>

theorem store_failure_reported_witness:
  "store_raises world_down \<and>
   status_of (fst (login demo_env (Some alice_body) world_down)) = Some 500 \<and>
   faults (snd (login demo_env (Some alice_body) world_down)) = [False] \<and>
   status_of (fst (secrets demo_env (Some ''a1b2'') world_down)) = Some 500 \<and>
   faults (snd (secrets demo_env (Some ''a1b2'') world_down)) = [False] \<and>
   status_of (fst (authenticateUser demo_env (Some ''a1b2'') world_down)) = Some 500 \<and>
   status_of (fst (register demo_env bob_draws (Some bob_body) world_down)) = Some 400 \<and>
   faults (snd (register demo_env bob_draws (Some bob_body) world_down)) = [False]"
proof -
  have down: "store_raises world_down" by (simp add: store_raises_def world_down_def)
  have adv: "faults (advance world_down) = [False]" by (simp add: advance_def world_down_def)
  have pre: "required_ok (body_name bob_body) \<and> body_password bob_body = Str ''pw'' \<and>
             hashSync demo_env ''pw'' (genSaltSync bob_draws) \<noteq> []"
    by (simp add: bob_body_def demo_env_def demo_hash_def)
  from store_failure_reported [OF down, of demo_env alice_body "Some ''a1b2''"]
       store_failure_reported [OF down, of demo_env bob_body "Some ''a1b2''" "''pw''" bob_draws]
       down adv pre
  show ?thesis by simp
qed

text \<open>
  C9 as stated fails for register: with the store down a valid registration is answered
  with status 400, not with a server error.
\<close>

theorem register_store_failure_is_400:
  "store_raises world_down \<and>
   status_of (fst (register demo_env bob_draws (Some bob_body) world_down)) = Some 400"
  by (simp add: register_def save_def validate_def bcrypt_hashSync_def reply_def
        store_raises_def world_down_def bob_body_def bob_draws_def demo_env_def demo_hash_def)

subsection \<open>C10: a request without the Authorization header\<close>

text \<open>
  C10, as the code has it. A request to \<open>GET /secrets\<close> without the \<open>Authorization\<close>
  header has the token undefined, and the handler passes it into the store query
  without rejecting it first: the store call is made. The store receives the undefined
  value as \<open>null\<close>, which no account matches, so when the store answers the lookup gives
  null and the reply is 401 with \<open>loggedOut: true\<close>, whether or not accounts exist. The
  middleware \<open>authenticateUser\<close> does the same.
\<close>

theorem secrets_without_header_refused:
  assumes "\<not> store_raises w"
  shows "findOne e AccessToken Undefined w = (Inr None, advance w) \<and>
         secrets e None w =
           (Reply \<lparr>status = 401, headers = [],
                   payload = JObj [(''success'', JBool False),
                                   (''response'', JStr ''Please log in''),
                                   (''loggedOut'', JBool True)]\<rparr>, advance w) \<and>
         authenticateUser e None w =
           (Reply \<lparr>status = 401, headers = [],
                   payload = JObj [(''success'', JBool False),
                                   (''response'', JStr ''Please log in''),
                                   (''loggedOut'', JBool True)]\<rparr>, advance w)"
  using assms
  by (simp add: secrets_def authenticateUser_def findOne_def find_undefined reply_def
        please_log_in_def)

text \<open>
  The instance: with alice stored and with the empty store alike, the request without
  the header is refused.
\<close>

theorem secrets_without_header_refused_witness:
  "\<not> store_raises world1 \<and> \<not> store_raises world0 \<and> users world1 = [alice] \<and>
   fst (findOne demo_env AccessToken Undefined world1) = Inr None \<and>
   status_of (fst (secrets demo_env None world1)) = Some 401 \<and>
   status_of (fst (authenticateUser demo_env None world1)) = Some 401 \<and>
   status_of (fst (secrets demo_env None world0)) = Some 401"
proof -
  have up1: "\<not> store_raises world1" and up0: "\<not> store_raises world0"
    by (simp_all add: store_raises_def world1_def world0_def)
  have us: "users world1 = [alice]" by (simp add: world1_def)
  from secrets_without_header_refused [OF up1, of demo_env]
       secrets_without_header_refused [OF up0, of demo_env] up1 up0 us
  show ?thesis by simp
qed

text \<open>
  C10 as stated fails: with one account stored, the request without the header is
  answered 401, not 200 with the secret, and the middleware does not call \<open>next()\<close>.
\<close>

theorem secrets_without_header_is_401:
  "users world1 = [alice] \<and>
   fst (secrets demo_env None world1) =
     Reply \<lparr>status = 401, headers = [],
            payload = JObj [(''success'', JBool False), (''response'', JStr ''Please log in''),
                            (''loggedOut'', JBool True)]\<rparr> \<and>
   fst (authenticateUser demo_env None world1) \<noteq> CallNext"
  by (simp add: secrets_def authenticateUser_def findOne_def store_raises_def reply_def
        please_log_in_def world1_def alice_def)

end
